theory Spec2Isabelle
  imports Complex_Main
begin

section \<open>Python values shared by the two source files\<close>

text \<open>
  The exceptions the modelled code can raise. A raise is the \<open>Inl\<close> branch of a
  result of type \<open>error + 'a\<close>.
\<close>

datatype error =
    NameError
  | UnboundLocalError
  | AttributeError
  | ValueError
  | TypeError
  | IndexError
  | AssertionError
  | LinAlgError

text \<open>
  A numpy array: its shape tuple and its entries in row-major order. Floats are read
  as real numbers throughout.
\<close>

datatype ndarray = NdArray (shape: "nat list") (data: "real list")

text \<open>\<^verbatim>\<open>np.zeros(shape)\<close>.\<close>

definition np_zeros :: "nat list \<Rightarrow> ndarray" where
  "np_zeros shp = NdArray shp (replicate (prod_list shp) 0)"

text \<open>\<^verbatim>\<open>a.shape[i]\<close>: indexing the shape tuple past its end raises IndexError.\<close>

definition shape_at :: "ndarray \<Rightarrow> nat \<Rightarrow> error + nat" where
  "shape_at a i = (if i < length (shape a) then Inr (shape a ! i) else Inl IndexError)"

section \<open>ILQR/ilqr.py: the planner object\<close>

text \<open>
  The attributes that \<^verbatim>\<open>ILQR.__init__\<close> and \<^verbatim>\<open>ILQR.load_parameters\<close> set.
  \<open>'r\<close> is the type of a reference path (class RefPath), \<open>'o\<close> the type of an
  obstacle (class Obstacle); both classes live outside the two source files.
\<close>

record ('r, 'o) ILQR =
  dim_x :: nat
  dim_u :: nat
  T :: nat
  dt :: real
  max_iter :: nat
  tol :: real
  alphas :: "real list"
  reg_min :: real
  reg_max :: real
  reg_init :: real
  reg_scale_up :: real
  reg_scale_down :: real
  max_attempt :: nat
  ref_path :: "'r option"
  obstacle_list :: "'o list"

text \<open>
  The collaborators \<^verbatim>\<open>plan\<close> calls: the dynamics (\<^verbatim>\<open>self.dyn\<close>), the cost
  (\<^verbatim>\<open>self.cost\<close>), the reference path's projection, the collision checker, and
  the wall clock (\<open>clock E n\<close> is what the \<open>n\<close>-th call of \<^verbatim>\<open>time.time()\<close> returns).
  Their code is not part of the two source files, so they are parameters; they are
  taken to return normally.
\<close>

record ('r, 'o) collaborators =
  rollout_nominal_np :: "ndarray \<Rightarrow> ndarray \<Rightarrow> ndarray \<times> ndarray"
  get_reference :: "'r \<Rightarrow> ndarray \<Rightarrow> ndarray"
  check_collisions :: "ndarray \<Rightarrow> 'o list \<Rightarrow> ndarray list"
  get_traj_cost :: "ndarray \<Rightarrow> ndarray \<Rightarrow> ndarray \<Rightarrow> ndarray list \<Rightarrow> real"
  clock :: "nat \<Rightarrow> real"

text \<open>
  What a call of \<^verbatim>\<open>plan\<close> does besides returning: the line it prints and the
  collaborator calls it makes, in order.
\<close>

datatype event =
    Print string
  | RolloutNominal
  | GetReference
  | CheckCollisions
  | TrajCost

text \<open>
  The dictionary \<^verbatim>\<open>plan\<close> returns: either \<^verbatim>\<open>dict(status=-1)\<close>, or the
  \<^verbatim>\<open>solver_info\<close> dictionary with the keys t_process, trajectory, controls,
  status, K_closed_loop and k_open_loop (\<open>None\<close> is Python's None).
\<close>

datatype plan_dict =
    StatusOnly int
  | SolverInfo real ndarray ndarray "int option" "ndarray option" "ndarray option"

text \<open>\<^verbatim>\<open>status_lookup\<close>: the status names, by index.\<close>

definition status_lookup :: "string list" where
  "status_lookup = [''Iteration Limit Exceed'', ''Converged'', ''Failed Line Search'']"

text \<open>
  The value under the key \<^verbatim>\<open>status\<close> of what \<^verbatim>\<open>plan\<close> produced; nothing when
  it raised, and nothing when the stored value is None.
\<close>

fun reported_status :: "error + plan_dict \<Rightarrow> int option" where
  "reported_status (Inl e) = None"
| "reported_status (Inr (StatusOnly n)) = Some n"
| "reported_status (Inr (SolverInfo tp x u st K k)) = st"

text \<open>
  \<^verbatim>\<open>ILQR.get_references\<close>: \<^verbatim>\<open>self.ref_path.get_reference\<close> raises AttributeError
  when \<^verbatim>\<open>self.ref_path\<close> is None.
\<close>

definition get_references ::
  "('r, 'o) collaborators \<Rightarrow> ('r, 'o) ILQR \<Rightarrow> ndarray \<Rightarrow> error + (ndarray \<times> ndarray list)" where
  "get_references E self trajectory =
     (case ref_path self of
        None \<Rightarrow> Inl AttributeError
      | Some rp \<Rightarrow>
          Inr (get_reference E rp trajectory,
               check_collisions E trajectory (obstacle_list self)))"

text \<open>
  \<^verbatim>\<open>ILQR.plan\<close> from the timing start (line 253) to the return (line 344), for the
  control sequence \<open>controls0\<close> chosen at lines 247-250.

  The \<^verbatim>\<open>while\<close> loop of line 272 runs while \<open>- tol < J < tol\<close>. Its body starts
  by evaluating the arguments of the call of \<^verbatim>\<open>self.backward_pass\<close>; the name
  \<^verbatim>\<open>alpha\<close> is neither a local of \<^verbatim>\<open>plan\<close> nor a global of the module, so the
  first iteration raises NameError. When the loop is not entered, the dictionary is
  built with status, K_closed_loop and k_open_loop all None.
\<close>

definition plan_body ::
  "('r, 'o) collaborators \<Rightarrow> ('r, 'o) ILQR \<Rightarrow> ndarray \<Rightarrow> ndarray \<Rightarrow>
     (error + plan_dict) \<times> ('r, 'o) ILQR \<times> event list" where
  "plan_body E self init_state controls0 =
     (let t_start = clock E 0;
          (trajectory, controls) = rollout_nominal_np E init_state controls0
      in case get_references E self trajectory of
           Inl e \<Rightarrow> (Inl e, self, [RolloutNominal])
         | Inr (path_refs, obs_refs) \<Rightarrow>
             (let J = get_traj_cost E trajectory controls path_refs obs_refs;
                  log = [RolloutNominal, GetReference, CheckCollisions, TrajCost]
              in case shape_at controls 1 of
                   Inl e \<Rightarrow> (Inl e, self, log)
                 | Inr T_local \<Rightarrow>
                     (let lam = reg_init self
                      in if J < tol self \<and> J > - tol self
                         then (Inl NameError, self, log)
                         else (Inr (SolverInfo (clock E 1 - t_start) trajectory controls
                                      None None None),
                               self, log))))"

text \<open>
  \<^verbatim>\<open>ILQR.plan(init_state, controls=None)\<close>. The result is what the call produced
  (a raise or the returned dictionary), the planner object after the call, and the
  events of the call.
\<close>

definition plan ::
  "('r, 'o) collaborators \<Rightarrow> ('r, 'o) ILQR \<Rightarrow> ndarray \<Rightarrow> ndarray option \<Rightarrow>
     (error + plan_dict) \<times> ('r, 'o) ILQR \<times> event list" where
  "plan E self init_state controls =
     (case ref_path self of
        None \<Rightarrow> (Inr (StatusOnly (- 1)), self, [Print ''No reference path is provided.''])
      | Some rp \<Rightarrow>
          (case controls of
             None \<Rightarrow> plan_body E self init_state (np_zeros [dim_u self, T self])
           | Some c \<Rightarrow>
               (case shape_at c 1 of
                  Inl e \<Rightarrow> (Inl e, self, [])
                | Inr n \<Rightarrow>
                    if n = T self then plan_body E self init_state c
                    else (Inl AssertionError, self, []))))"

section \<open>ILQR/ilqr.py: the backward pass\<close>

text \<open>
  The two updates of the regularization \<open>lam\<close> in \<^verbatim>\<open>backward_pass\<close>:
  \<^verbatim>\<open>lam = alpha*lam\<close> (line 174) and the returned \<^verbatim>\<open>b*lam\<close> (line 190).
  Neither consults \<^verbatim>\<open>reg_min\<close> or \<^verbatim>\<open>reg_max\<close>.
\<close>

definition scale_up :: "real \<Rightarrow> real \<Rightarrow> real" where
  "scale_up alpha lam = alpha * lam"

definition scale_down :: "real \<Rightarrow> real \<Rightarrow> real" where
  "scale_down b lam = b * lam"

text \<open>
  The numerical steps of \<^verbatim>\<open>backward_pass\<close>. They are calls into numpy and into the
  cost and dynamics classes, whose code is outside the two source files, so they are
  parameters; each may raise.
  \<^item> \<open>linearize\<close>: lines 143-144, the derivative arrays \<open>q, r, Q, R, H, A, B\<close>;
  \<^item> \<open>terminal_value\<close>: lines 148-149, \<open>(p, P)\<close> read at column \<open>T\<close>;
  \<^item> \<open>q_function\<close>: lines 153-170, the blocks \<open>Qxt, Qut, Qxxt, Quut, Quxt\<close> and
    the regularized \<open>Quu_reg, Qux_reg\<close> at step \<open>t\<close>, from \<open>(p, P)\<close> and \<open>lam\<close>
    (when \<open>lam\<close> is a Python float, the product \<^verbatim>\<open>lam@np.identity(...)\<close> of line
    169 raises ValueError: a raise of this step);
  \<^item> \<open>eigvals_all_positive\<close>: the test of line 173,
    \<^verbatim>\<open>np.all(np.linalg.eigvals(Quu_reg) > 0)\<close>;
  \<^item> \<open>gains\<close>: lines 179-182, \<open>(Kt, kt)\<close> computed and written into
    \<^verbatim>\<open>K_closed_loop\<close> and \<^verbatim>\<open>k_open_loop\<close> (two local arrays that are never
    read and never returned);
  \<^item> \<open>value_gradient\<close>: line 185, the new \<open>p\<close>.
\<close>

record ('d, 'a, 'q, 'g) numerics =
  linearize :: "ndarray \<Rightarrow> ndarray \<Rightarrow> ndarray \<Rightarrow> ndarray list \<Rightarrow> error + 'd"
  terminal_value :: "'d \<Rightarrow> nat \<Rightarrow> error + ('a \<times> 'a)"
  q_function :: "'d \<Rightarrow> int \<Rightarrow> 'a \<times> 'a \<Rightarrow> real \<Rightarrow> error + 'q"
  eigvals_all_positive :: "'q \<Rightarrow> error + bool"
  gains :: "'q \<Rightarrow> error + 'g"
  value_gradient :: "'q \<Rightarrow> 'g \<Rightarrow> error + 'a"

text \<open>
  Line 186, the new \<open>P\<close>. The expression calls \<^verbatim>\<open>Kt.tranpose()\<close>; a numpy array
  has no attribute of that name, so evaluating it raises AttributeError whatever the
  values are.
\<close>

definition value_hessian :: "'q \<Rightarrow> 'g \<Rightarrow> error + 'a" where
  "value_hessian qb g = Inl AttributeError"

text \<open>
  One iteration of the \<^verbatim>\<open>while t >= 0\<close> loop, lines 153-188. The loop state
  is the index \<open>t\<close>, the value derivatives \<open>(p, P)\<close>, the regularization \<open>lam\<close>,
  and \<open>Kk\<close>, the locals \<open>(Kt, kt)\<close> (None while they are unbound). The iteration
  either raises or hands the next state to the loop test. When the test of line 173
  succeeds, it multiplies \<open>lam\<close> by \<open>alpha\<close> and goes back to \<open>t = T - 1\<close>,
  keeping \<open>(p, P)\<close> as they are (the \<^verbatim>\<open>continue\<close> of line 176); otherwise it
  computes the gains and the new value derivatives and moves to \<open>t - 1\<close>.
\<close>

type_synonym ('a, 'g) backward_state = "int \<times> ('a \<times> 'a) \<times> real \<times> 'g option"

fun backward_step ::
  "('d, 'a, 'q, 'g) numerics \<Rightarrow> ('r, 'o) ILQR \<Rightarrow> 'd \<Rightarrow> real \<Rightarrow> ('a, 'g) backward_state \<Rightarrow>
     error + ('a, 'g) backward_state" where
  "backward_step N self d alpha (t, pP, lam, Kk) =
     (case q_function N d t pP lam of
        Inl e \<Rightarrow> Inl e
      | Inr qb \<Rightarrow>
          (case eigvals_all_positive N qb of
             Inl e \<Rightarrow> Inl e
           | Inr pd \<Rightarrow>
               if pd then Inr (int (T self) - 1, pP, scale_up alpha lam, Kk)
               else
                 (case gains N qb of
                    Inl e \<Rightarrow> Inl e
                  | Inr g \<Rightarrow>
                      (case value_gradient N qb g of
                         Inl e \<Rightarrow> Inl e
                       | Inr p' \<Rightarrow>
                           (case value_hessian qb g of
                              Inl e \<Rightarrow> Inl e
                            | Inr P' \<Rightarrow> Inr (t - 1, (p', P'), lam, Some g))))))"

text \<open>
  The loop of lines 152-188. It may run forever, so the result is an option: None is
  a run that never leaves the loop. When the loop ends, the locals \<open>(Kt, kt)\<close> and
  \<open>lam\<close> are what the return statement reads.
\<close>

partial_function (option) backward_loop ::
  "('d, 'a, 'q, 'g) numerics \<Rightarrow> ('r, 'o) ILQR \<Rightarrow> 'd \<Rightarrow> real \<Rightarrow> ('a, 'g) backward_state \<Rightarrow>
     (error + ('g option \<times> real)) option" where
  "backward_loop N self d alpha s =
     (if fst s \<ge> 0 then
        (case backward_step N self d alpha s of
           Inl e \<Rightarrow> Some (Inl e)
         | Inr s' \<Rightarrow> backward_loop N self d alpha s')
      else Some (Inr (snd (snd (snd s)), fst (snd (snd s)))))"

text \<open>
  \<^verbatim>\<open>ILQR.backward_pass(trajectory, controls, path_refs, obs_refs, alpha, b, lam)\<close>.
  The return statement of line 190 reads the locals \<open>Kt\<close> and \<open>kt\<close>: when no
  iteration has bound them it raises UnboundLocalError; otherwise it returns the
  gains of the last step computed and \<^verbatim>\<open>b*lam\<close>.
\<close>

definition backward_pass ::
  "('d, 'a, 'q, 'g) numerics \<Rightarrow> ('r, 'o) ILQR \<Rightarrow> ndarray \<Rightarrow> ndarray \<Rightarrow> ndarray \<Rightarrow>
     ndarray list \<Rightarrow> real \<Rightarrow> real \<Rightarrow> real \<Rightarrow> (error + ('g \<times> real)) option" where
  "backward_pass N self trajectory controls path_refs obs_refs alpha b lam =
     (case linearize N trajectory controls path_refs obs_refs of
        Inl e \<Rightarrow> Some (Inl e)
      | Inr d \<Rightarrow>
          (case terminal_value N d (T self) of
             Inl e \<Rightarrow> Some (Inl e)
           | Inr pP \<Rightarrow>
               (case backward_loop N self d alpha (int (T self) - 1, pP, lam, None) of
                  None \<Rightarrow> None
                | Some (Inl e) \<Rightarrow> Some (Inl e)
                | Some (Inr (None, lam')) \<Rightarrow> Some (Inl UnboundLocalError)
                | Some (Inr (Some g, lam')) \<Rightarrow> Some (Inr (g, scale_down b lam')))))"

section \<open>ILQR/ilqr.py: the forward pass\<close>

text \<open>
  The numerical steps of \<^verbatim>\<open>forward_pass\<close>, again numpy and collaborator calls that
  may raise. The work arrays are the pair \<open>(trajectory_new, controls_new)\<close>.
  \<^item> \<open>first_column\<close>: lines 202-206, the two \<^verbatim>\<open>np.zeros_like\<close> arrays after
    the assignment \<^verbatim>\<open>trajectory_new[:, 0] = trajectory[: 0]\<close>;
  \<^item> \<open>rollout\<close>: the \<^verbatim>\<open>for t in range(self.T-1)\<close> loop of lines 209-213 for the
    current \<open>alpha\<close>, which updates the work arrays in place;
  \<^item> \<open>new_cost\<close>: lines 216-217, the references and the cost of the work arrays.
\<close>

record 'k forward_numerics =
  first_column :: "ndarray \<Rightarrow> ndarray \<Rightarrow> error + (ndarray \<times> ndarray)"
  rollout :: "nat \<Rightarrow> ndarray \<Rightarrow> ndarray \<Rightarrow> 'k \<Rightarrow> real \<Rightarrow> ndarray \<times> ndarray \<Rightarrow>
                error + (ndarray \<times> ndarray)"
  new_cost :: "ndarray \<times> ndarray \<Rightarrow> error + real"

text \<open>Line 204: \<^verbatim>\<open>rho = 0.1\<close>.\<close>

definition rho :: real where
  "rho = 1 / 10"

text \<open>
  The \<^verbatim>\<open>while alpha > rho\<close> loop of lines 208-219. It leaves through the
  \<^verbatim>\<open>break\<close> when the new cost is below \<open>J\<close>, and through its condition when
  \<open>alpha\<close> has dropped to \<open>rho\<close> or below; in both cases control reaches the
  return statement with the work arrays as they are. The loop may run forever (for
  instance with \<open>epsilon = 1\<close>), so the result is an option.
\<close>

partial_function (option) line_search ::
  "'k forward_numerics \<Rightarrow> nat \<Rightarrow> ndarray \<Rightarrow> ndarray \<Rightarrow> real \<Rightarrow> 'k \<Rightarrow> real \<Rightarrow> real \<Rightarrow>
     ndarray \<times> ndarray \<Rightarrow> (error + (ndarray \<times> ndarray)) option" where
  "line_search F horizon trajectory controls J Kk epsilon alpha w =
     (if alpha > rho then
        (case rollout F horizon trajectory controls Kk alpha w of
           Inl e \<Rightarrow> Some (Inl e)
         | Inr w' \<Rightarrow>
             (case new_cost F w' of
                Inl e \<Rightarrow> Some (Inl e)
              | Inr J_new \<Rightarrow>
                  if J_new < J then Some (Inr w')
                  else line_search F horizon trajectory controls J Kk epsilon
                         (epsilon * alpha) w'))
      else Some (Inr w))"

text \<open>
  \<^verbatim>\<open>ILQR.forward_pass(trajectory, controls, J, K, k, alpha, epsilon)\<close>. It returns
  the pair \<^verbatim>\<open>controls_new, trajectory_new\<close>, in this order, whichever way the loop
  was left.
\<close>

definition forward_pass ::
  "'k forward_numerics \<Rightarrow> ('r, 'o) ILQR \<Rightarrow> ndarray \<Rightarrow> ndarray \<Rightarrow> real \<Rightarrow> 'k \<Rightarrow> real \<Rightarrow> real \<Rightarrow>
     (error + (ndarray \<times> ndarray)) option" where
  "forward_pass F self trajectory controls J Kk alpha epsilon =
     (case first_column F trajectory controls of
        Inl e \<Rightarrow> Some (Inl e)
      | Inr w \<Rightarrow>
          (case line_search F (T self) trajectory controls J Kk epsilon alpha w of
             None \<Rightarrow> None
           | Some (Inl e) \<Rightarrow> Some (Inl e)
           | Some (Inr (trajectory_new, controls_new)) \<Rightarrow>
               Some (Inr (controls_new, trajectory_new))))"

section \<open>traj_planner.py: the Start and Stop commands\<close>

text \<open>
  Modelled from the spec: class \<^verbatim>\<open>RealtimeBuffer\<close> (module \<^verbatim>\<open>utils\<close>) is not among
  the source files. The spec describes it as a single-slot exchange: write
  replaces the stored value and sets the new-data flag; read takes the stored value
  and clears the flag; reset clears the stored value and the flag. A read leaves the
  value in the slot (the control loop reads the latest policy at every tick, and a
  policy lives until it is superseded or the channel is reset). The method names are
  the ones \<^verbatim>\<open>traj_planner.py\<close> calls.
\<close>

record 'a RealtimeBuffer =
  stored :: "'a option"
  new_data_available :: bool

definition writeFromNonRT :: "'a \<Rightarrow> 'a RealtimeBuffer \<Rightarrow> 'a RealtimeBuffer" where
  "writeFromNonRT v buf = buf \<lparr> stored := Some v, new_data_available := True \<rparr>"

definition readFromRT :: "'a RealtimeBuffer \<Rightarrow> 'a option \<times> 'a RealtimeBuffer" where
  "readFromRT buf = (stored buf, buf \<lparr> new_data_available := False \<rparr>)"

definition reset :: "'a RealtimeBuffer \<Rightarrow> 'a RealtimeBuffer" where
  "reset buf = buf \<lparr> stored := None, new_data_available := False \<rparr>"

text \<open>
  The attributes of \<^verbatim>\<open>TrajectoryPlanner\<close> that the service callbacks and the
  threads share: the readiness flag and the four buffers that
  \<^verbatim>\<open>setup_planner\<close> creates, and the latency. \<open>'s\<close> is a planning state, \<open>'m\<close>
  an odometry message, \<open>'p\<close> a policy, \<open>'r\<close> a reference path.
\<close>

record ('s, 'm, 'p, 'r) TrajectoryPlanner =
  latency :: real
  planner_ready :: bool
  plan_state_buffer :: "'s RealtimeBuffer"
  control_state_buffer :: "'m RealtimeBuffer"
  policy_buffer :: "'p RealtimeBuffer"
  path_buffer :: "'r RealtimeBuffer"

text \<open>
  \<^verbatim>\<open>start_planning_cb\<close> and \<^verbatim>\<open>stop_planning_cb\<close>, lines 164-179 (the log lines
  are left out).
\<close>

definition start_planning_cb ::
  "('s, 'm, 'p, 'r) TrajectoryPlanner \<Rightarrow> ('s, 'm, 'p, 'r) TrajectoryPlanner" where
  "start_planning_cb self = self \<lparr> planner_ready := True \<rparr>"

definition stop_planning_cb ::
  "('s, 'm, 'p, 'r) TrajectoryPlanner \<Rightarrow> ('s, 'm, 'p, 'r) TrajectoryPlanner" where
  "stop_planning_cb self =
     self \<lparr> planner_ready := False, policy_buffer := reset (policy_buffer self) \<rparr>"

section \<open>traj_planner.py: the receding-horizon planning thread\<close>





section \<open>Concrete inputs\<close>

text \<open>
  A planner with the five-state, two-control model, horizon 3, and collaborators that
  keep the controls, return an all-zeros trajectory of \<open>T\<close> columns and charge the
  cost \<open>c\<close>.
\<close>

definition demo_ilqr :: "unit option \<Rightarrow> (unit, unit) ILQR" where
  "demo_ilqr rp =
     \<lparr> dim_x = 5, dim_u = 2, T = 3, dt = 1 / 10, max_iter = 50, tol = 1 / 100,
       alphas = [1, 1 / 2, 1 / 4], reg_min = 1 / 4, reg_max = 4, reg_init = 1,
       reg_scale_up = 4, reg_scale_down = 1 / 2, max_attempt = 5,
       ref_path = rp, obstacle_list = [] \<rparr>"

definition demo_collaborators :: "real \<Rightarrow> (unit, unit) collaborators" where
  "demo_collaborators c =
     \<lparr> rollout_nominal_np = (\<lambda>x0 u. (np_zeros [5, 3], u)),
       get_reference = (\<lambda>rp x. np_zeros [3, 3]),
       check_collisions = (\<lambda>x obs. []),
       get_traj_cost = (\<lambda>x u p obs. c),
       clock = (\<lambda>n. real n) \<rparr>"

text \<open>
  A scalar system for \<^verbatim>\<open>backward_pass\<close>: one state, one control, every array of
  the derivatives with a single row, and \<open>lam\<close> a one-by-one array. The derivative
  arrays are given by their columns \<open>t = 0 .. T\<close>. For one-by-one arrays the matrix
  products are products of numbers, the only eigenvalue of \<open>[[a]]\<close> is \<open>a\<close>, and
  \<^verbatim>\<open>np.linalg.inv([[a]])\<close> raises LinAlgError when \<open>a = 0\<close>.

  The entries are float64 numbers read as reals. Rounding is not modelled: the
  instance is exact on the small dyadic values the theorems use. The range is
  modelled where the loop depends on it: a real beyond the largest float stands for
  an infinity, the regularized block computed from it is not finite, and
  \<^verbatim>\<open>np.linalg.eigvals\<close> raises LinAlgError on an array that is not finite.
\<close>

definition float_max :: real where
  "float_max = (2 ^ 53 - 1) * 2 ^ 971"

definition finite_float :: "real \<Rightarrow> bool" where
  "finite_float x \<longleftrightarrow> \<bar>x\<bar> \<le> float_max"

record scalar_derivs =
  cost_q :: "real list"
  cost_r :: "real list"
  cost_Q :: "real list"
  cost_R :: "real list"
  cost_H :: "real list"
  dyn_A :: "real list"
  dyn_B :: "real list"

record scalar_blocks =
  Qxt :: real
  Qut :: real
  Qxxt :: real
  Quut :: real
  Quxt :: real
  Quu_reg :: real
  Qux_reg :: real
  Quu_reg_finite :: bool

text \<open>Column \<open>i\<close> of a one-row array; a negative index counts from the end.\<close>

definition column :: "real list \<Rightarrow> int \<Rightarrow> error + real" where
  "column xs i =
     (if 0 \<le> i \<and> i < int (length xs) then Inr (xs ! nat i)
      else if i < 0 \<and> - int (length xs) \<le> i then Inr (xs ! nat (int (length xs) + i))
      else Inl IndexError)"

fun columns :: "real list list \<Rightarrow> int \<Rightarrow> error + real list" where
  "columns [] t = Inr []"
| "columns (xs # xss) t =
     (case column xs t of
        Inl e \<Rightarrow> Inl e
      | Inr v \<Rightarrow> (case columns xss t of Inl e \<Rightarrow> Inl e | Inr vs \<Rightarrow> Inr (v # vs)))"

definition scalar_terminal_value :: "scalar_derivs \<Rightarrow> nat \<Rightarrow> error + (real \<times> real)" where
  "scalar_terminal_value d horizon =
     (case columns [cost_q d, cost_Q d] (int horizon) of
        Inr [p, P] \<Rightarrow> Inr (p, P)
      | Inr _ \<Rightarrow> Inl IndexError
      | Inl e \<Rightarrow> Inl e)"

definition scalar_q_function ::
  "scalar_derivs \<Rightarrow> int \<Rightarrow> real \<times> real \<Rightarrow> real \<Rightarrow> error + scalar_blocks" where
  "scalar_q_function d t pP lam =
     (case columns [cost_q d, cost_r d, cost_Q d, cost_R d, cost_H d, dyn_A d, dyn_B d] t of
        Inr [qt, rt, Qt, Rt, Ht, At, Bt] \<Rightarrow>
          (let p = fst pP; P = snd pP in
           Inr \<lparr> Qxt = qt + At * p,
                 Qut = rt + Bt * p,
                 Qxxt = Qt + At * P * At,
                 Quut = Rt + Bt * P * Bt,
                 Quxt = Ht + Bt * P * At,
                 Quu_reg = Rt + Bt * (P + lam) * Bt,
                 Qux_reg = Ht + Bt * (P + lam) * At,
                 Quu_reg_finite =
                   (finite_float lam \<and> finite_float (P + lam) \<and>
                    finite_float (Bt * (P + lam)) \<and> finite_float (Bt * (P + lam) * Bt) \<and>
                    finite_float (Rt + Bt * (P + lam) * Bt)) \<rparr>)
      | Inr _ \<Rightarrow> Inl IndexError
      | Inl e \<Rightarrow> Inl e)"

definition scalar_gains :: "scalar_blocks \<Rightarrow> error + (real \<times> real)" where
  "scalar_gains qb =
     (if Quu_reg qb = 0 then Inl LinAlgError
      else if Qux_reg qb = 0 then Inl LinAlgError
      else Inr (- (1 / Quu_reg qb) * Qux_reg qb, - (1 / Qux_reg qb) * Qut qb))"

definition scalar_value_gradient :: "scalar_blocks \<Rightarrow> real \<times> real \<Rightarrow> error + real" where
  "scalar_value_gradient qb g =
     (let Kt = fst g; kt = snd g in
      Inr (Qxt qb + Kt * Qut qb + Kt * Quut qb * kt + Quxt qb * kt))"

definition scalar_numerics ::
  "scalar_derivs \<Rightarrow> (scalar_derivs, real, scalar_blocks, real \<times> real) numerics" where
  "scalar_numerics d =
     \<lparr> linearize = (\<lambda>trajectory controls path_refs obs_refs. Inr d),
       terminal_value = scalar_terminal_value,
       q_function = scalar_q_function,
       eigvals_all_positive =
         (\<lambda>qb. if Quu_reg_finite qb then Inr (Quu_reg qb > 0) else Inl LinAlgError),
       gains = scalar_gains,
       value_gradient = scalar_value_gradient \<rparr>"

text \<open>
  Two scalar problems of horizon one that differ in the control cost only:
  \<open>R = -1\<close> makes the regularized block \<open>Quu_reg = -1\<close> (not positive definite),
  \<open>R = 1\<close> makes it \<open>1\<close> (positive definite), for every finite \<open>lam\<close>, because
  \<open>B = 0\<close>.
\<close>

definition scalar_problem :: "real \<Rightarrow> scalar_derivs" where
  "scalar_problem R =
     \<lparr> cost_q = [0, 0], cost_r = [0, 0], cost_Q = [1, 1], cost_R = [R, R],
       cost_H = [1, 1], dyn_A = [1, 1], dyn_B = [0, 0] \<rparr>"

definition horizon1 :: "(unit, unit) ILQR" where
  "horizon1 = (demo_ilqr (Some ())) \<lparr> dim_x := 1, dim_u := 1, T := 1 \<rparr>"

text \<open>
  The forward pass on numpy arrays. The assignment of line 206 always raises:
  \<^verbatim>\<open>trajectory[: 0]\<close> is the empty slice of shape \<open>(0, N)\<close>, which cannot be
  broadcast into the column \<^verbatim>\<open>trajectory_new[:, 0]\<close> (ValueError); with fewer than
  two axes, or with no column, the index \<^verbatim>\<open>[:, 0]\<close> itself raises IndexError. The
  two other steps are never reached: the rollout loop has no iteration for
  \<open>T \<le> 1\<close> and its assignment of line 213 raises for \<open>T \<ge> 2\<close>; the cost of the
  work arrays is the parameter \<open>cost\<close>.
\<close>

definition numpy_forward :: "(ndarray \<times> ndarray \<Rightarrow> real) \<Rightarrow> unit forward_numerics" where
  "numpy_forward cost =
     \<lparr> first_column =
         (\<lambda>trajectory controls.
            if length (shape trajectory) < 2 \<or> shape trajectory ! 1 = 0 then Inl IndexError
            else Inl ValueError),
       rollout =
         (\<lambda>horizon trajectory controls Kk alpha w.
            if 2 \<le> horizon then Inl ValueError else Inr w),
       new_cost = (\<lambda>w. Inr (cost w)) \<rparr>"



section \<open>Theorems\<close>

subsection \<open>The backward pass (C1, C4, C5)\<close>

text \<open>
  An iteration never binds the locals \<open>(Kt, kt)\<close> and hands on to the loop test:
  the only branch that computes them raises at line 186.
\<close>

lemma backward_step_keeps_locals:
  "backward_step N self d alpha s = Inr s' \<Longrightarrow> snd (snd (snd s')) = snd (snd (snd s))"
  by (cases s) (auto simp: value_hessian_def split: sum.splits if_splits)

lemma backward_loop_keeps_locals:
  assumes "backward_loop N self d alpha s = Some y"
  shows "(case y of Inl e \<Rightarrow> True | Inr (Kk', lam') \<Rightarrow> Kk' = snd (snd (snd s)))"
  using assms
proof (rule backward_loop.raw_induct
        [rotated, where P = "\<lambda>N self d alpha s y.
           (case y of Inl e \<Rightarrow> True | Inr (Kk', lam') \<Rightarrow> Kk' = snd (snd (snd s)))"],
       goal_cases)
  case (1 loop N self d alpha s y)
  note IH = 1(1) and unfolded = 1(2)
  show ?case
  proof (cases "0 \<le> fst s")
    case False
    with unfolded show ?thesis by auto
  next
    case True
    show ?thesis
    proof (cases "backward_step N self d alpha s")
      case (Inl e)
      with unfolded True show ?thesis by auto
    next
      case (Inr s')
      with unfolded True have "loop N self d alpha s' = Some y" by simp
      then have "case y of Inl e \<Rightarrow> True | Inr (Kk', lam') \<Rightarrow> Kk' = snd (snd (snd s'))"
        by (rule IH)
      with backward_step_keeps_locals [OF Inr] show ?thesis by (cases y) auto
    qed
  qed
qed

text \<open>
  The planner object enters the loop through its horizon only: two planners with the
  same \<open>T\<close> run the same loop.
\<close>

lemma backward_step_horizon_only:
  "T self' = T self \<Longrightarrow> backward_step N self' d alpha s = backward_step N self d alpha s"
  by (cases s) (simp split: sum.splits)

lemma backward_loop_horizon_only_aux:
  assumes "backward_loop N self' d alpha s = Some y"
  shows "T self' = T self \<longrightarrow> backward_loop N self d alpha s = Some y"
  using assms
proof (rule backward_loop.raw_induct
        [rotated, where P = "\<lambda>N self' d alpha s y.
           T self' = T self \<longrightarrow> backward_loop N self d alpha s = Some y"], goal_cases)
  case (1 loop N self' d alpha s y)
  note IH = 1(1) and unfolded = 1(2)
  show ?case
  proof
    assume same: "T self' = T self"
    have step: "backward_step N self' d alpha s = backward_step N self d alpha s"
      using same by (rule backward_step_horizon_only)
    show "backward_loop N self d alpha s = Some y"
    proof (cases "0 \<le> fst s")
      case False
      with unfolded show ?thesis by (subst backward_loop.simps) simp
    next
      case True
      show ?thesis
      proof (cases "backward_step N self d alpha s")
        case (Inl e)
        with unfolded True step show ?thesis
          by (subst backward_loop.simps) (simp del: backward_step.simps)
      next
        case (Inr s')
        with unfolded True step have "loop N self' d alpha s' = Some y"
          by (simp del: backward_step.simps)
        then have "backward_loop N self d alpha s' = Some y"
          using IH same by blast
        with True Inr show ?thesis
          by (subst backward_loop.simps) (simp del: backward_step.simps)
      qed
    qed
  qed
qed

lemma backward_loop_horizon_only:
  assumes "T self' = T self"
  shows "backward_loop N self' d alpha s = backward_loop N self d alpha s"
proof (cases "backward_loop N self' d alpha s")
  case (Some y)
  with backward_loop_horizon_only_aux [OF Some, of self] assms show ?thesis by simp
next
  case None
  show ?thesis
  proof (cases "backward_loop N self d alpha s")
    case (Some y)
    with backward_loop_horizon_only_aux [OF Some, of self'] assms None show ?thesis by simp
  next
    case n: None
    with None show ?thesis by simp
  qed
qed

text \<open>
  The float range: \<open>4 ^ 511\<close> and its successor are finite floats, \<open>4 ^ 512\<close> is
  beyond the largest one.
\<close>

lemma float_max_bounds: "(4::real) ^ 511 + 1 \<le> float_max" "float_max < (4::real) ^ 512"
  by (simp_all add: float_max_def)

lemma finite_float_small: "finite_float 0" "finite_float 1" "finite_float (- 1)"
  "finite_float 2" "finite_float 4" "finite_float 5" "finite_float 16" "finite_float 17"
  by (simp_all add: finite_float_def float_max_def)

lemma finite_float_power4:
  assumes "k < 512"
  shows "finite_float (4 ^ k)" and "finite_float (1 + 4 ^ k)"
proof -
  have "(4::real) ^ k \<le> 4 ^ 511"
    using assms by (intro power_increasing) simp_all
  with float_max_bounds(1) have "1 + (4::real) ^ k \<le> float_max" by linarith
  moreover have "(0::real) \<le> 4 ^ k" by simp
  ultimately show "finite_float (4 ^ k)" and "finite_float (1 + 4 ^ k)"
    by (simp_all add: finite_float_def)
qed

lemma not_finite_float_power4: "\<not> finite_float (4 ^ 512)"
  using float_max_bounds(2) by (simp add: finite_float_def)

text \<open>
  On the scalar problem with \<open>R = 1\<close> the test of line 173 succeeds for every
  finite \<open>lam\<close>: the iteration scales \<open>lam\<close> and restarts at \<open>t = 0\<close>. Once \<open>lam\<close>
  has overflowed, the block is not finite and the test raises LinAlgError.
\<close>

lemma positive_definite_step:
  assumes "finite_float lam" and "finite_float (1 + lam)"
  shows "backward_step (scalar_numerics (scalar_problem 1)) horizon1 (scalar_problem 1) alpha
     (0, (p, 1), lam, Kk) = Inr (0, (p, 1), scale_up alpha lam, Kk)"
  using assms finite_float_small
  by (simp add: scalar_numerics_def scalar_q_function_def scalar_problem_def column_def
      horizon1_def Let_def)

lemma overflow_step:
  assumes "\<not> finite_float lam"
  shows "backward_step (scalar_numerics (scalar_problem 1)) horizon1 (scalar_problem 1) alpha
     (0, (p, 1), lam, Kk) = Inl LinAlgError"
  using assms
  by (simp add: scalar_numerics_def scalar_q_function_def scalar_problem_def column_def
      horizon1_def Let_def)

text \<open>
  With \<open>alpha = 4\<close> the loop restarts until \<open>lam\<close> overflows, \<open>512\<close> scale-ups
  after \<open>lam = 1\<close>, and then raises.
\<close>

lemma scale_by_four_overflows:
  "k \<le> 512 \<Longrightarrow>
     backward_loop (scalar_numerics (scalar_problem 1)) horizon1 (scalar_problem 1) 4
       (0, (p, 1), 4 ^ k, Kk) = Some (Inl LinAlgError)"
proof (induction "512 - k" arbitrary: k)
  case 0
  then have k: "k = 512" by simp
  have step: "backward_step (scalar_numerics (scalar_problem 1)) horizon1 (scalar_problem 1) 4
       (0, (p, 1), 4 ^ 512, Kk) = Inl LinAlgError"
    by (rule overflow_step [OF not_finite_float_power4])
  show ?case
    unfolding k
    by (subst backward_loop.simps) (simp only: step fst_conv order_refl if_True sum.case)
next
  case (Suc n)
  then have k: "k < 512" and n: "n = 512 - Suc k" and le: "Suc k \<le> 512" by simp_all
  have next_lam: "scale_up 4 (4 ^ k) = 4 ^ Suc k" by (simp add: scale_up_def)
  have step: "backward_step (scalar_numerics (scalar_problem 1)) horizon1 (scalar_problem 1) 4
       (0, (p, 1), 4 ^ k, Kk) = Inr (0, (p, 1), 4 ^ Suc k, Kk)"
    using positive_definite_step [OF finite_float_power4 [OF k], of 4 p Kk]
    by (simp only: next_lam)
  have "backward_loop (scalar_numerics (scalar_problem 1)) horizon1 (scalar_problem 1) 4
       (0, (p, 1), 4 ^ k, Kk) =
        backward_loop (scalar_numerics (scalar_problem 1)) horizon1 (scalar_problem 1) 4
       (0, (p, 1), 4 ^ Suc k, Kk)"
    by (subst backward_loop.simps) (simp only: step fst_conv order_refl if_True sum.case)
  also have "\<dots> = Some (Inl LinAlgError)"
    using Suc.hyps(1) [OF n le] .
  finally show ?case .
qed

text \<open>With \<open>alpha = 1\<close> the loop state never changes and the loop never ends.\<close>

lemma unit_scale_loops_aux:
  assumes "backward_loop N self d alpha s = Some y"
  shows "\<not> (N = scalar_numerics (scalar_problem 1) \<and> self = horizon1 \<and>
            d = scalar_problem 1 \<and> alpha = 1 \<and> s = (0, (0, 1), 1, None))"
  using assms
proof (rule backward_loop.raw_induct
        [rotated, where P = "\<lambda>N self d alpha s y.
           \<not> (N = scalar_numerics (scalar_problem 1) \<and> self = horizon1 \<and>
              d = scalar_problem 1 \<and> alpha = 1 \<and> s = (0, (0, 1), 1, None))"], goal_cases)
  case (1 loop N self d alpha s y)
  note IH = 1(1) and unfolded = 1(2)
  show ?case
  proof
    assume a: "N = scalar_numerics (scalar_problem 1) \<and> self = horizon1 \<and>
               d = scalar_problem 1 \<and> alpha = 1 \<and> s = (0, (0, 1), 1, None)"
    have step: "backward_step (scalar_numerics (scalar_problem 1)) horizon1 (scalar_problem 1) 1
        (0, (0, 1), 1, None) = Inr (0, (0, 1), 1, None)"
      using positive_definite_step [where lam = 1 and alpha = 1 and p = 0 and Kk = None]
        finite_float_small
      by (simp add: scale_up_def)
    have "loop N self d alpha s = Some y"
      using unfolded a step by (simp del: backward_step.simps)
    with IH [of N self d alpha s y] a show False by simp
  qed
qed

lemma unit_scale_loops:
  "backward_loop (scalar_numerics (scalar_problem 1)) horizon1 (scalar_problem 1) 1
     (0, (0, 1), 1, None) = None"
  using unit_scale_loops_aux
    [of "scalar_numerics (scalar_problem 1)" horizon1 "scalar_problem 1" 1 "(0, (0, 1), 1, None)"]
  by (cases "backward_loop (scalar_numerics (scalar_problem 1)) horizon1 (scalar_problem 1) 1
     (0, (0, 1), 1, None)") auto

text \<open>
  C1. The claim: when the regularized block \<open>Quu_reg\<close> fails positive-definiteness
  the pass is aborted, \<open>lam\<close> is scaled up and clamped to \<open>reg_max\<close>, and the
  recursion restarts; gains are computed only when \<open>Quu_reg\<close> is positive definite.
  The code has the test the other way round. On the scalar problem of horizon one,
  with \<open>b = 1/2\<close> and \<open>lam = 1\<close>:
  \<^item> with \<open>Quu_reg = -1\<close> (not positive definite) the iteration does not abort: it
    computes the gains and the new \<open>p\<close> and then raises AttributeError at line 186,
    and so does the whole pass;
  \<^item> with \<open>Quu_reg = 1\<close> (positive definite) and \<open>alpha = 4\<close> the iteration
    computes no gain: it sets \<open>lam\<close> to \<open>4\<close> and goes back to \<open>t = T - 1 = 0\<close>
    with \<open>(p, P)\<close> unchanged; the whole pass keeps restarting until \<open>lam\<close>
    overflows and then raises LinAlgError at line 173;
  \<^item> with \<open>Quu_reg = 1\<close> and \<open>alpha = 1\<close> the whole pass never returns.
\<close>

theorem backward_pass_test_inverted:
  "backward_step (scalar_numerics (scalar_problem (- 1))) horizon1 (scalar_problem (- 1)) 4
      (0, (0, 1), 1, None) = Inl AttributeError \<and>
   backward_step (scalar_numerics (scalar_problem 1)) horizon1 (scalar_problem 1) 4
      (0, (0, 1), 1, None) = Inr (0, (0, 1), 4, None) \<and>
   backward_pass (scalar_numerics (scalar_problem (- 1))) horizon1
      (np_zeros [1, 2]) (np_zeros [1, 1]) (np_zeros [1, 2]) [] 4 (1 / 2) 1
     = Some (Inl AttributeError) \<and>
   backward_pass (scalar_numerics (scalar_problem 1)) horizon1
      (np_zeros [1, 2]) (np_zeros [1, 1]) (np_zeros [1, 2]) [] 4 (1 / 2) 1
     = Some (Inl LinAlgError) \<and>
   backward_pass (scalar_numerics (scalar_problem 1)) horizon1
      (np_zeros [1, 2]) (np_zeros [1, 1]) (np_zeros [1, 2]) [] 1 (1 / 2) 1
     = None"
proof -
  have non_pd: "backward_step (scalar_numerics (scalar_problem (- 1))) horizon1
      (scalar_problem (- 1)) 4 (0, (0, 1), 1, None) = Inl AttributeError"
    using finite_float_small
    by (simp add: scalar_numerics_def scalar_problem_def scalar_q_function_def column_def
        scalar_gains_def scalar_value_gradient_def value_hessian_def)
  have pd: "backward_step (scalar_numerics (scalar_problem 1)) horizon1 (scalar_problem 1) 4
      (0, (0, 1), 1, None) = Inr (0, (0, 1), 4, None)"
    using positive_definite_step [where lam = 1 and alpha = 4 and p = 0 and Kk = None]
      finite_float_small
    by (simp add: scale_up_def)
  have horizon: "T horizon1 = 1" by (simp add: horizon1_def)
  have terminal: "terminal_value (scalar_numerics (scalar_problem R)) (scalar_problem R) (Suc 0)
      = Inr (0, 1)" for R
    by (simp add: scalar_numerics_def scalar_terminal_value_def scalar_problem_def column_def)
  have lin: "linearize (scalar_numerics d) x u p obs = Inr d" for d x u p obs
    by (simp add: scalar_numerics_def)
  have raised: "backward_pass (scalar_numerics (scalar_problem (- 1))) horizon1
      (np_zeros [1, 2]) (np_zeros [1, 1]) (np_zeros [1, 2]) [] 4 (1 / 2) 1
     = Some (Inl AttributeError)"
    by (simp add: backward_pass_def lin horizon terminal backward_loop.simps non_pd
        del: backward_step.simps)
  have overflowed: "backward_pass (scalar_numerics (scalar_problem 1)) horizon1
      (np_zeros [1, 2]) (np_zeros [1, 1]) (np_zeros [1, 2]) [] 4 (1 / 2) 1
     = Some (Inl LinAlgError)"
    using scale_by_four_overflows [where k = 0 and p = 0 and Kk = None]
    by (simp add: backward_pass_def lin horizon terminal)
  have looped: "backward_pass (scalar_numerics (scalar_problem 1)) horizon1
      (np_zeros [1, 2]) (np_zeros [1, 1]) (np_zeros [1, 2]) [] 1 (1 / 2) 1 = None"
    by (simp add: backward_pass_def lin horizon terminal unit_scale_loops)
  from non_pd pd raised overflowed looped show ?thesis by simp
qed

text \<open>
  C4. The claim: across any sequence of scale-ups and scale-downs starting from
  \<open>reg_init\<close>, \<open>lam\<close> stays within \<open>[reg_min, reg_max]\<close>. The code stores both
  bounds in the planner and never reads them: the backward pass of a planner is the
  backward pass of the same planner with any other bounds \<open>lo\<close> and \<open>hi\<close>. On the
  scalar problem with \<open>R = 1\<close>, for the planner \<open>horizon1\<close> (bounds \<open>[1/4, 4]\<close>)
  and the factor \<open>alpha = 4\<close>, the first iteration of the loop takes \<open>lam\<close> from
  \<open>1\<close> to \<open>4\<close> and the second from \<open>4\<close> to \<open>16\<close>, above \<open>reg_max\<close>.
\<close>

theorem backward_pass_ignores_reg_bounds:
  "backward_pass N (self \<lparr> reg_min := lo, reg_max := hi \<rparr>) trajectory controls path_refs
      obs_refs alpha b lam =
     backward_pass N self trajectory controls path_refs obs_refs alpha b lam \<and>
   reg_min horizon1 = 1 / 4 \<and> reg_max horizon1 = 4 \<and>
   backward_step (scalar_numerics (scalar_problem 1)) horizon1 (scalar_problem 1) 4
      (0, (0, 1), 1, None) = Inr (0, (0, 1), 4, None) \<and>
   backward_step (scalar_numerics (scalar_problem 1)) horizon1 (scalar_problem 1) 4
      (0, (0, 1), 4, None) = Inr (0, (0, 1), 16, None) \<and>
   \<not> 16 \<le> reg_max horizon1"
proof -
  have frame: "backward_pass N (self \<lparr> reg_min := lo, reg_max := hi \<rparr>) trajectory controls
      path_refs obs_refs alpha b lam =
     backward_pass N self trajectory controls path_refs obs_refs alpha b lam"
  proof -
    have loop: "backward_loop N (self \<lparr> reg_min := lo, reg_max := hi \<rparr>) d alpha s =
        backward_loop N self d alpha s" for d s
      by (rule backward_loop_horizon_only) simp
    show ?thesis
      by (simp add: backward_pass_def loop split: sum.splits)
  qed
  have fields: "reg_min horizon1 = 1 / 4" "reg_max horizon1 = 4"
    by (simp_all add: horizon1_def demo_ilqr_def)
  have first: "backward_step (scalar_numerics (scalar_problem 1)) horizon1 (scalar_problem 1) 4
      (0, (0, 1), 1, None) = Inr (0, (0, 1), 4, None)"
    using positive_definite_step [where lam = 1 and alpha = 4 and p = 0 and Kk = None]
      finite_float_small
    by (simp add: scale_up_def)
  have second: "backward_step (scalar_numerics (scalar_problem 1)) horizon1 (scalar_problem 1) 4
      (0, (0, 1), 4, None) = Inr (0, (0, 1), 16, None)"
    using positive_definite_step [where lam = 4 and alpha = 4 and p = 0 and Kk = None]
      finite_float_small
    by (simp add: scale_up_def)
  from frame fields first second show ?thesis by simp
qed

text \<open>
  C5. The claim: the backward pass returns gain sequences \<open>K_t\<close> and \<open>k_t\<close> of
  length \<open>T\<close>. The code returns no gain at all: whatever the numerical steps
  compute, whatever the horizon and the arguments, \<^verbatim>\<open>backward_pass\<close> never returns
  normally. A run raises (at line 186 after the first gains, at line 190 when the
  loop body never ran, or inside a numerical step) or stays in the loop forever.
\<close>

theorem backward_pass_never_returns:
  "backward_pass N self trajectory controls path_refs obs_refs alpha b lam \<noteq> Some (Inr r)"
proof -
  have "backward_loop N self d alpha (t, pP, lam, None) \<noteq> Some (Inr (Some g, lam'))"
    for d t pP g lam'
    using backward_loop_keeps_locals [of N self d alpha "(t, pP, lam, None)" "Inr (Some g, lam')"]
    by auto
  then show ?thesis
    by (auto simp: backward_pass_def split: sum.splits option.splits prod.splits)
qed

subsection \<open>The outer loop of plan (C2)\<close>

text \<open>
  C2. The claim: \<^verbatim>\<open>plan\<close> ends with status Converged exactly when the change of
  cost between two iterations is below the tolerance, and with
  IterationLimitExceeded after \<open>max_iter\<close> iterations. The code reports neither:
  for every planner, every collaborator and every argument, the status \<^verbatim>\<open>plan\<close>
  produces is \<open>-1\<close> (no reference path) or nothing (None in the dictionary, or a
  raise), never \<open>1\<close> or \<open>0\<close>, the positions of Converged and of the iteration
  limit in \<^verbatim>\<open>status_lookup\<close>. With a reference
  path and an initial cost of \<open>5\<close> against a tolerance of \<open>1/100\<close> it returns after
  no iteration with status None; with an initial cost of \<open>0\<close> it enters the loop
  and raises NameError.
\<close>

theorem plan_reports_no_status:
  "status_lookup ! 1 = ''Converged'' \<and> status_lookup ! 0 = ''Iteration Limit Exceed'' \<and>
   reported_status (fst (plan E self init_state controls)) \<in> {None, Some (- 1)} \<and>
   fst (plan (demo_collaborators 5) (demo_ilqr (Some ())) (np_zeros [5]) None) =
     Inr (SolverInfo 1 (np_zeros [5, 3]) (np_zeros [2, 3]) None None None) \<and>
   fst (plan (demo_collaborators 0) (demo_ilqr (Some ())) (np_zeros [5]) None) = Inl NameError"
proof -
  have "reported_status (fst (plan E self init_state controls)) \<in> {None, Some (- 1)}"
    by (auto simp: plan_def plan_body_def Let_def split: option.splits sum.splits prod.splits)
  moreover have
    "fst (plan (demo_collaborators 5) (demo_ilqr (Some ())) (np_zeros [5]) None) =
       Inr (SolverInfo 1 (np_zeros [5, 3]) (np_zeros [2, 3]) None None None)"
    by (simp add: plan_def plan_body_def demo_ilqr_def demo_collaborators_def shape_at_def
        np_zeros_def get_references_def)
  moreover have
    "fst (plan (demo_collaborators 0) (demo_ilqr (Some ())) (np_zeros [5]) None) = Inl NameError"
    by (simp add: plan_def plan_body_def demo_ilqr_def demo_collaborators_def shape_at_def
        np_zeros_def get_references_def)
  ultimately show ?thesis by (simp add: status_lookup_def)
qed

subsection \<open>The forward pass (C3)\<close>

text \<open>
  C3. The claim: the forward pass accepts the first step size whose cost is below
  \<open>J\<close>. The code accepts no step at all: on every two-dimensional trajectory with
  at least one row and one column, whatever the controls, the cost \<open>J\<close>, the
  gains, the step size, the factor \<open>epsilon\<close> and the cost function are, the call
  raises ValueError at the assignment of line 206, before any candidate is
  simulated; so it does for a \<open>5 \<times> 3\<close> trajectory with \<open>J = 1\<close>.
\<close>

theorem forward_pass_raises_at_first_column:
  "forward_pass (numpy_forward cost) self (NdArray [Suc n, Suc m] xs) controls J Kk alpha epsilon
     = Some (Inl ValueError) \<and>
   forward_pass (numpy_forward cost) (demo_ilqr (Some ())) (np_zeros [5, 3]) (np_zeros [2, 3])
      1 () 1 (1 / 2) = Some (Inl ValueError)"
  by (simp add: forward_pass_def numpy_forward_def np_zeros_def)

subsection \<open>Planning without a reference path (C6)\<close>

text \<open>
  C6. If \<^verbatim>\<open>plan\<close> is called while no reference path is set, it returns at once with
  the failure status \<open>-1\<close>; the planner object is unchanged, and the call makes no
  rollout, no reference projection, no collision check and no cost evaluation: it
  only prints its message. This holds for every initial state and every control
  sequence passed, and whatever the collaborators are.
\<close>

theorem plan_without_ref_path:
  "ref_path self = None \<Longrightarrow>
     plan E self init_state controls =
       (Inr (StatusOnly (- 1)), self, [Print ''No reference path is provided.''])"
  by (simp add: plan_def)

theorem plan_without_ref_path_witness:
  "ref_path (demo_ilqr None) = None \<and>
   plan (demo_collaborators 5) (demo_ilqr None) (np_zeros [5]) (Some (np_zeros [2, 7])) =
     (Inr (StatusOnly (- 1)), demo_ilqr None, [Print ''No reference path is provided.''])"
  using plan_without_ref_path [of "demo_ilqr None" "demo_collaborators 5" "np_zeros [5]"
      "Some (np_zeros [2, 7])"]
  by (simp add: demo_ilqr_def)

subsection \<open>The replanning test of the planning thread (C8)\<close>


subsection \<open>The Stop command (C9)\<close>

text \<open>
  C9. After the Stop command the next read of the policy channel returns no value,
  whatever was in the channel and whatever values \<open>vs\<close> were written to it before
  the Stop, and the planner is marked not ready.
\<close>

theorem stop_resets_policy_channel:
  "fst (readFromRT (policy_buffer (stop_planning_cb
          (self \<lparr> policy_buffer := foldr writeFromNonRT vs (policy_buffer self) \<rparr>)))) = None \<and>
   \<not> planner_ready (stop_planning_cb
          (self \<lparr> policy_buffer := foldr writeFromNonRT vs (policy_buffer self) \<rparr>))"
  by (simp add: stop_planning_cb_def readFromRT_def reset_def)

subsection \<open>The control argument of plan (C10)\<close>

text \<open>
  C10, as amended. While a reference path is set: a call of \<^verbatim>\<open>plan\<close> with a control
  sequence whose second dimension \<open>n\<close> differs from the horizon \<open>T\<close> raises
  AssertionError, before any collaborator is called and with the planner unchanged;
  a call without a control sequence rolls out the all-zeros sequence of shape
  \<open>(dim_u, T)\<close>, and is the same as the call that passes this sequence.
\<close>

theorem plan_controls_argument:
  assumes "ref_path self = Some rp"
  shows "(shape_at c 1 = Inr n \<and> n \<noteq> T self \<longrightarrow>
            plan E self init_state (Some c) = (Inl AssertionError, self, [])) \<and>
         plan E self init_state None =
           plan_body E self init_state (np_zeros [dim_u self, T self]) \<and>
         plan E self init_state None =
           plan E self init_state (Some (np_zeros [dim_u self, T self]))"
  using assms by (simp add: plan_def shape_at_def np_zeros_def)

theorem plan_controls_argument_witness:
  "ref_path (demo_ilqr (Some ())) = Some () \<and>
   shape_at (np_zeros [2, 7]) 1 = Inr 7 \<and> 7 \<noteq> T (demo_ilqr (Some ())) \<and>
   plan (demo_collaborators 5) (demo_ilqr (Some ())) (np_zeros [5]) (Some (np_zeros [2, 7])) =
     (Inl AssertionError, demo_ilqr (Some ()), []) \<and>
   plan (demo_collaborators 5) (demo_ilqr (Some ())) (np_zeros [5]) None =
     plan (demo_collaborators 5) (demo_ilqr (Some ())) (np_zeros [5]) (Some (np_zeros [2, 3]))"
proof -
  have fields: "ref_path (demo_ilqr (Some ())) = Some ()" "T (demo_ilqr (Some ())) = 3"
    "dim_u (demo_ilqr (Some ())) = 2"
    by (simp_all add: demo_ilqr_def)
  have shp: "shape_at (np_zeros [2, 7]) 1 = Inr 7" "shape_at (np_zeros [2, 7]) (Suc 0) = Inr 7"
    by (simp_all add: shape_at_def np_zeros_def)
  show ?thesis
    using plan_controls_argument [OF fields(1), of "np_zeros [2, 7]" 7 "demo_collaborators 5"
        "np_zeros [5]"]
    by (auto simp: fields shp)
qed

text \<open>
  C10 as stated fails when no reference path is set: the check of the reference path
  comes first, so a control sequence of second dimension \<open>9\<close> against the horizon
  \<open>3\<close> gets the dictionary with status \<open>-1\<close> back, not a raise.
\<close>

theorem plan_status_before_assertion:
  "shape_at (np_zeros [2, 9]) 1 = Inr 9 \<and> T (demo_ilqr None) \<noteq> 9 \<and>
   plan (demo_collaborators 5) (demo_ilqr None) (np_zeros [5]) (Some (np_zeros [2, 9])) =
     (Inr (StatusOnly (- 1)), demo_ilqr None, [Print ''No reference path is provided.''])"
  by (simp add: plan_def demo_ilqr_def shape_at_def np_zeros_def)

end
